theory Spec2Isabelle
  imports Main "HOL-Library.Sublist"
begin

section \<open>The mock financial-data server: query filtering and temporal selection\<close>

text \<open>
  A shallow embedding of the two request handlers of \<^verbatim>\<open>src/server.js\<close>,
  \<^verbatim>\<open>GET /prices\<close> and \<^verbatim>\<open>GET /portfolios\<close>, over an explicit
  Record Store. What the handlers take from the JavaScript host is made explicit:
  \<^item> date parsing and the local calendar (\<^verbatim>\<open>new Date(s)\<close>,
    \<^verbatim>\<open>toDateString()\<close>) are the fields of a \<open>host\<close> record;
  \<^item> \<^verbatim>\<open>uuidv4()\<close> draws from a source of identifiers that is passed in and
    returned, so that every call of \<^verbatim>\<open>uuidv4\<close> in the source is a draw in the model;
  \<^item> \<^verbatim>\<open>new Date().toISOString()\<close> is the clock reading handed to the handler.
\<close>

subsection \<open>Data model\<close>

text \<open>
  A price record, as \<^verbatim>\<open>generateHistoricalPrices\<close> pushes it:
  \<^verbatim>\<open>{ id, asset, price, timestamp }\<close>. The timestamp is the time value that
  \<^verbatim>\<open>getTime()\<close> returns for a valid date (milliseconds since the epoch), so
  \<^verbatim>\<open>new Date(price.timestamp)\<close> is the valid date with that time value.
  The field \<^verbatim>\<open>id\<close> is named \<open>rec_id\<close> here.
\<close>

record price_record =
  rec_id :: string
  asset :: string
  price :: int
  timestamp :: int

text \<open>
  A position, as \<^verbatim>\<open>generatePositionsForTheMonth\<close> pushes it:
  \<^verbatim>\<open>{ id, asset, quantity, asOf, price }\<close>, with \<^verbatim>\<open>asOf\<close> an ISO string.
\<close>

record position_record =
  pos_id :: int
  pos_asset :: string
  quantity :: int
  asOf :: string
  pos_price :: int

text \<open>The object built by \<^verbatim>\<open>GET /portfolios\<close>: \<^verbatim>\<open>{ id, asOf, positions }\<close>.\<close>

record portfolio =
  pf_id :: string
  pf_asOf :: string
  pf_positions :: "position_record list"

text \<open>
  An element of the array that \<^verbatim>\<open>GET /prices\<close> sends: either one of the stored
  records, or the object literal \<^verbatim>\<open>{ id: uuidv4(), asset: assetId, price: 0 }\<close>,
  which has no timestamp.
\<close>

datatype price_entry =
  Stored price_record
| Placeholder string string int

fun entry_asset :: "price_entry \<Rightarrow> string" where
  "entry_asset (Stored r) = asset r"
| "entry_asset (Placeholder i a p) = a"

fun is_placeholder :: "price_entry \<Rightarrow> bool" where
  "is_placeholder (Stored r) = False"
| "is_placeholder (Placeholder i a p) = True"

fun entry_id :: "price_entry \<Rightarrow> string" where
  "entry_id (Stored r) = rec_id r"
| "entry_id (Placeholder i a p) = i"

text \<open>
  The error responses. \<open>MissingParameter\<close> is status 400 with
  \<^verbatim>\<open>'assets parameter is required'\<close>, \<open>InvalidDate\<close> is status 400 with
  \<^verbatim>\<open>'Invalid date format'\<close>, \<open>InternalFailure\<close> is the status 500 of the
  \<^verbatim>\<open>catch\<close> blocks.
\<close>

datatype error = MissingParameter | InvalidDate | InternalFailure

subsection \<open>The host: dates, identifiers\<close>

text \<open>
  A JavaScript \<^verbatim>\<open>Date\<close> is its time value, or \<open>None\<close> for an invalid date
  (time value \<^verbatim>\<open>NaN\<close>).
\<close>

type_synonym date = "int option"

text \<open>
  \<open>parseDate s\<close> is the time value of \<^verbatim>\<open>new Date(s)\<close> for a string \<open>s\<close>;
  \<open>dateString t\<close> is what \<^verbatim>\<open>toDateString()\<close> returns for the valid date with
  time value \<open>t\<close>: the calendar day in the host's local time zone.
\<close>

record host =
  parseDate :: "string \<Rightarrow> date"
  dateString :: "int \<Rightarrow> string"

text \<open>\<^verbatim>\<open>toDateString()\<close> of an invalid date is the string \<^verbatim>\<open>"Invalid Date"\<close>.\<close>

definition toDateString :: "host \<Rightarrow> date \<Rightarrow> string" where
  "toDateString h d = (case d of None \<Rightarrow> ''Invalid Date'' | Some t \<Rightarrow> dateString h t)"

text \<open>
  \<^verbatim>\<open>a >= b\<close> and \<^verbatim>\<open>a <= b\<close> on two dates compare the time values; a comparison
  with \<^verbatim>\<open>NaN\<close> is false.
\<close>

definition date_ge :: "date \<Rightarrow> date \<Rightarrow> bool" where
  "date_ge a b = (case a of None \<Rightarrow> False | Some x \<Rightarrow> (case b of None \<Rightarrow> False | Some y \<Rightarrow> y \<le> x))"

definition date_le :: "date \<Rightarrow> date \<Rightarrow> bool" where
  "date_le a b = (case a of None \<Rightarrow> False | Some x \<Rightarrow> (case b of None \<Rightarrow> False | Some y \<Rightarrow> x \<le> y))"

text \<open>
  \<^verbatim>\<open>isValidDate\<close>: \<^verbatim>\<open>date instanceof Date && !isNaN(date)\<close> for
  \<^verbatim>\<open>date = new Date(dateString)\<close>.
\<close>

definition isValidDate :: "host \<Rightarrow> string \<Rightarrow> bool" where
  "isValidDate h s = (parseDate h s \<noteq> None)"

text \<open>
  The identifiers that successive calls of \<^verbatim>\<open>uuidv4()\<close> will return, the next one
  at index 0. A call returns the head and leaves the rest.
\<close>

type_synonym uuid_source = "nat \<Rightarrow> string"

definition uuidv4 :: "uuid_source \<Rightarrow> string \<times> uuid_source" where
  "uuidv4 g = (g 0, (\<lambda>n. g (Suc n)))"

subsection \<open>Query parameters\<close>

text \<open>
  A parameter of \<^verbatim>\<open>req.query\<close> is a string, or absent (\<^verbatim>\<open>undefined\<close>):
  the handlers are modelled on the raw query-parameter strings of the specification's
  interface. On these no statement of a handler throws, so that no request is answered
  from a \<^verbatim>\<open>catch\<close> block. \<open>truthy\<close> is JavaScript's test of a parameter in a
  condition: absent and the empty string are false. \<open>str\<close> reads a parameter that is
  known to be there.
\<close>

definition truthy :: "string option \<Rightarrow> bool" where
  "truthy p = (case p of None \<Rightarrow> False | Some s \<Rightarrow> s \<noteq> [])"

definition str :: "string option \<Rightarrow> string" where
  "str p = (case p of None \<Rightarrow> [] | Some s \<Rightarrow> s)"

text \<open>\<^verbatim>\<open>s.split(',')\<close>: the pieces between commas; never an empty array.\<close>

fun split_comma :: "string \<Rightarrow> string list" where
  "split_comma [] = [[]]"
| "split_comma (c # cs) =
     (if c = CHR '','' then [] # split_comma cs
      else (case split_comma cs of [] \<Rightarrow> [[c]] | w # ws \<Rightarrow> (c # w) # ws))"

subsection \<open>GET /prices\<close>

text \<open>
  The three filters of the handler:
  \<^verbatim>\<open>historicalPrices.filter(price => requestedAssets.includes(price.asset))\<close>,
  the range filter \<^verbatim>\<open>priceDate >= fromDate && priceDate <= toDate\<close> and the day filter
  \<^verbatim>\<open>new Date(price.timestamp).toDateString() === asOfDate.toDateString()\<close>.
\<close>

definition assetFilter :: "string list \<Rightarrow> price_record list \<Rightarrow> price_record list" where
  "assetFilter requestedAssets ps = filter (\<lambda>p. asset p \<in> set requestedAssets) ps"

definition rangeFilter :: "date \<Rightarrow> date \<Rightarrow> price_record list \<Rightarrow> price_record list" where
  "rangeFilter fromDate toDate ps =
     filter (\<lambda>p. date_ge (Some (timestamp p)) fromDate \<and> date_le (Some (timestamp p)) toDate) ps"

definition dayFilter :: "host \<Rightarrow> date \<Rightarrow> price_record list \<Rightarrow> price_record list" where
  "dayFilter h asOfDate ps =
     filter (\<lambda>p. toDateString h (Some (timestamp p)) = toDateString h asOfDate) ps"

text \<open>
  \<^verbatim>\<open>.filter(price => price.asset === assetId).sort((a, b) => new Date(b.timestamp) - new Date(a.timestamp))\<close>:
  the records of one asset, latest first. \<^verbatim>\<open>Array.prototype.sort\<close> is stable, and so
  is \<open>sort_key\<close>: records of equal timestamp keep their order.
\<close>

definition assetPrices :: "price_record list \<Rightarrow> string \<Rightarrow> price_record list" where
  "assetPrices filteredPrices assetId =
     sort_key (\<lambda>p. - timestamp p) (filter (\<lambda>p. asset p = assetId) filteredPrices)"

text \<open>
  \<^verbatim>\<open>requestedAssets.map(assetId => assetPrices[0] || { id: uuidv4(), asset: assetId, price: 0 })\<close>.
  The elements are computed from left to right, and \<^verbatim>\<open>uuidv4()\<close> is called only where
  \<^verbatim>\<open>assetPrices[0]\<close> is \<^verbatim>\<open>undefined\<close>, that is where the array is empty.
\<close>

fun latestPrices :: "price_record list \<Rightarrow> string list \<Rightarrow> uuid_source \<Rightarrow> price_entry list \<times> uuid_source" where
  "latestPrices filteredPrices [] g = ([], g)"
| "latestPrices filteredPrices (assetId # rest) g =
     (case assetPrices filteredPrices assetId of
        [] \<Rightarrow> (case uuidv4 g of (u, g1) \<Rightarrow>
                (case latestPrices filteredPrices rest g1 of (es, g2) \<Rightarrow>
                   (Placeholder u assetId 0 # es, g2)))
      | r # _ \<Rightarrow> (case latestPrices filteredPrices rest g of (es, g1) \<Rightarrow> (Stored r # es, g1)))"

text \<open>
  The end of the handler, \<^verbatim>\<open>if (asOf) { ... res.json(latestPrices) } else { res.json(filteredPrices) }\<close>,
  reached from each of the three filtering branches.
\<close>

definition respond :: "string option \<Rightarrow> string list \<Rightarrow> price_record list \<Rightarrow> uuid_source
    \<Rightarrow> (error + price_entry list) \<times> uuid_source" where
  "respond asOf_q requestedAssets filteredPrices g =
     (if truthy asOf_q
      then (case latestPrices filteredPrices requestedAssets g of (es, g1) \<Rightarrow> (Inr es, g1))
      else (Inr (map Stored filteredPrices), g))"

text \<open>
  The handler of \<^verbatim>\<open>GET /prices\<close>, named as the specification names it. Its
  arguments are the host, the Record Store's \<^verbatim>\<open>historicalPrices\<close>, the four query
  parameters \<^verbatim>\<open>assets\<close>, \<^verbatim>\<open>asOf\<close>, \<^verbatim>\<open>from\<close>, \<^verbatim>\<open>to\<close> and the
  identifier source; it returns the response and the source that is left.
\<close>

definition queryPrices :: "host \<Rightarrow> price_record list \<Rightarrow> string option \<Rightarrow> string option
    \<Rightarrow> string option \<Rightarrow> string option \<Rightarrow> uuid_source \<Rightarrow> (error + price_entry list) \<times> uuid_source" where
  "queryPrices h historicalPrices assetIds asOf_q from_q to_q g =
     (if \<not> truthy assetIds then (Inl MissingParameter, g)
      else
        let requestedAssets = split_comma (str assetIds);
            filteredPrices = assetFilter requestedAssets historicalPrices
        in
          if truthy from_q \<and> truthy to_q then
            (if \<not> isValidDate h (str from_q) \<or> \<not> isValidDate h (str to_q)
             then (Inl InvalidDate, g)
             else respond asOf_q requestedAssets
                    (rangeFilter (parseDate h (str from_q)) (parseDate h (str to_q)) filteredPrices) g)
          else if truthy asOf_q then
            (if \<not> isValidDate h (str asOf_q)
             then (Inl InvalidDate, g)
             else respond asOf_q requestedAssets
                    (dayFilter h (parseDate h (str asOf_q)) filteredPrices) g)
          else respond asOf_q requestedAssets filteredPrices g)"

subsection \<open>GET /portfolios\<close>

text \<open>
  \<^verbatim>\<open>positions.filter(position => new Date(position.asOf).toDateString() === asOfDate.toDateString())\<close>.
\<close>

definition positionFilter :: "host \<Rightarrow> date \<Rightarrow> position_record list \<Rightarrow> position_record list" where
  "positionFilter h asOfDate ps =
     filter (\<lambda>p. toDateString h (parseDate h (asOf p)) = toDateString h asOfDate) ps"

text \<open>
  The handler of \<^verbatim>\<open>GET /portfolios\<close>. \<open>snapshot\<close> is its end, the object
  \<^verbatim>\<open>{ id: uuidv4(), asOf: asOf || new Date().toISOString(), positions: filteredPositions }\<close>
  sent by \<^verbatim>\<open>res.json\<close>. \<open>now\<close> is the value of \<^verbatim>\<open>new Date().toISOString()\<close>
  at the call; it is used only where \<^verbatim>\<open>asOf\<close> is absent or empty.
\<close>

definition snapshot :: "string option \<Rightarrow> string \<Rightarrow> position_record list \<Rightarrow> uuid_source
    \<Rightarrow> (error + portfolio) \<times> uuid_source" where
  "snapshot asOf_q now filteredPositions g =
     (case uuidv4 g of (u, g1) \<Rightarrow>
        (Inr \<lparr> pf_id = u,
               pf_asOf = (if truthy asOf_q then str asOf_q else now),
               pf_positions = filteredPositions \<rparr>, g1))"

definition queryPortfolio :: "host \<Rightarrow> position_record list \<Rightarrow> string option \<Rightarrow> string
    \<Rightarrow> uuid_source \<Rightarrow> (error + portfolio) \<times> uuid_source" where
  "queryPortfolio h positions asOf_q now g =
     (if truthy asOf_q then
        (if \<not> isValidDate h (str asOf_q) then (Inl InvalidDate, g)
         else snapshot asOf_q now (positionFilter h (parseDate h (str asOf_q)) positions) g)
      else snapshot asOf_q now positions g)"

subsection \<open>What two answers to one request are compared on\<close>

text \<open>
  The values that a handler takes from outside the request and the Record Store are the
  identifiers drawn from \<^verbatim>\<open>uuidv4()\<close> and the clock reading. \<open>without_id\<close>
  blanks the drawn identifier of a placeholder, \<open>without_fresh\<close> the drawn identifier of
  a snapshot and, where the request gave no \<^verbatim>\<open>asOf\<close>, the clock reading in it.
\<close>

fun without_id :: "price_entry \<Rightarrow> price_entry" where
  "without_id (Stored r) = Stored r"
| "without_id (Placeholder u a p) = Placeholder [] a p"

definition without_ids :: "error + price_entry list \<Rightarrow> error + price_entry list" where
  "without_ids r = (case r of Inl e \<Rightarrow> Inl e | Inr es \<Rightarrow> Inr (map without_id es))"

definition without_fresh :: "string option \<Rightarrow> error + portfolio \<Rightarrow> error + portfolio" where
  "without_fresh asOf_q r =
     (case r of
        Inl e \<Rightarrow> Inl e
      | Inr s \<Rightarrow> Inr (s \<lparr> pf_id := [], pf_asOf := (if truthy asOf_q then pf_asOf s else []) \<rparr>))"

subsection \<open>A concrete host and a concrete Record Store\<close>

text \<open>
  A host in UTC that parses a handful of date strings and knows their calendar days;
  any other string, \<^verbatim>\<open>"not-a-date"\<close> among them, is an invalid date. It serves
  to run the handlers on concrete requests.
\<close>

definition demo_parse :: "string \<Rightarrow> date" where
  "demo_parse s =
     map_of [(''2023-01-01'', 1672531200000),
             (''2023-01-08'', 1673136000000),
             (''2023-01-08T13:45:00.000Z'', 1673185500000),
             (''2023-01-15'', 1673740800000),
             (''2024-06-15'', 1718409600000),
             (''2024-06-15T00:00:00.000Z'', 1718409600000),
             (''2024-06-15T18:30:00.000Z'', 1718476200000),
             (''2024-06-16T00:00:00.000Z'', 1718496000000),
             (''2099-01-01'', 4070908800000)] s"

definition demo_day :: "int \<Rightarrow> string" where
  "demo_day t =
     (let d = t div 86400000 in
      if d = 19358 then ''Sun Jan 01 2023''
      else if d = 19365 then ''Sun Jan 08 2023''
      else if d = 19372 then ''Sun Jan 15 2023''
      else if d = 19889 then ''Sat Jun 15 2024''
      else if d = 19890 then ''Sun Jun 16 2024''
      else if d = 47117 then ''Thu Jan 01 2099''
      else ''another day'')"

definition demo_host :: host where
  "demo_host = \<lparr> parseDate = demo_parse, dateString = demo_day \<rparr>"

definition btc1 :: price_record where
  "btc1 = \<lparr> rec_id = ''p1'', asset = ''Bitcoin'', price = 9100, timestamp = 1672531200000 \<rparr>"

definition btc2 :: price_record where
  "btc2 = \<lparr> rec_id = ''p2'', asset = ''Bitcoin'', price = 9350, timestamp = 1673136000000 \<rparr>"

definition btc3 :: price_record where
  "btc3 = \<lparr> rec_id = ''p3'', asset = ''Bitcoin'', price = 9275, timestamp = 1673185500000 \<rparr>"

definition eth1 :: price_record where
  "eth1 = \<lparr> rec_id = ''p4'', asset = ''Ethereum'', price = 9420, timestamp = 1672531200000 \<rparr>"

definition eth2 :: price_record where
  "eth2 = \<lparr> rec_id = ''p5'', asset = ''Ethereum'', price = 9660, timestamp = 1673136000000 \<rparr>"

definition demo_prices :: "price_record list" where
  "demo_prices = [btc1, btc2, btc3, eth1, eth2]"

definition pos1 :: position_record where
  "pos1 = \<lparr> pos_id = 1, pos_asset = ''a-btc'', quantity = 12, asOf = ''2024-06-15T00:00:00.000Z'',
            pos_price = 4 \<rparr>"

definition pos2 :: position_record where
  "pos2 = \<lparr> pos_id = 2, pos_asset = ''a-eth'', quantity = 7, asOf = ''2024-06-15T18:30:00.000Z'',
            pos_price = 9 \<rparr>"

definition pos3 :: position_record where
  "pos3 = \<lparr> pos_id = 3, pos_asset = ''a-btc'', quantity = 30, asOf = ''2024-06-16T00:00:00.000Z'',
            pos_price = 2 \<rparr>"

definition demo_positions :: "position_record list" where
  "demo_positions = [pos1, pos2, pos3]"

text \<open>An identifier source whose draws are pairwise different: \<open>u\<close>, \<open>u'\<close>, \<open>u''\<close>, ...\<close>

definition demo_uuids :: uuid_source where
  "demo_uuids n = CHR ''u'' # replicate n (CHR 0x27)"

section \<open>Properties\<close>

subsection \<open>Unfolding the handlers on concrete requests\<close>

lemmas demo = demo_host_def demo_parse_def demo_day_def demo_prices_def btc1_def btc2_def
  btc3_def eth1_def eth2_def demo_positions_def pos1_def pos2_def pos3_def

lemmas defs = queryPrices_def truthy_def str_def isValidDate_def respond_def assetFilter_def
  dayFilter_def rangeFilter_def assetPrices_def toDateString_def uuidv4_def date_ge_def
  date_le_def queryPortfolio_def snapshot_def positionFilter_def

subsection \<open>The branches of GET /prices\<close>

lemma split_comma_not_Nil: "split_comma s \<noteq> []"
  by (induction s) (auto split: list.splits)

lemma queryPrices_missing:
  "\<not> truthy assetIds \<Longrightarrow> queryPrices h P assetIds asOf_q from_q to_q g = (Inl MissingParameter, g)"
  by (simp add: queryPrices_def)

lemma queryPrices_range:
  "truthy assetIds \<Longrightarrow> truthy from_q \<Longrightarrow> truthy to_q \<Longrightarrow>
   isValidDate h (str from_q) \<Longrightarrow> isValidDate h (str to_q) \<Longrightarrow>
   queryPrices h P assetIds asOf_q from_q to_q g =
     respond asOf_q (split_comma (str assetIds))
       (rangeFilter (parseDate h (str from_q)) (parseDate h (str to_q))
          (assetFilter (split_comma (str assetIds)) P)) g"
  by (simp add: queryPrices_def Let_def)

lemma queryPrices_range_invalid:
  "truthy assetIds \<Longrightarrow> truthy from_q \<Longrightarrow> truthy to_q \<Longrightarrow>
   \<not> isValidDate h (str from_q) \<or> \<not> isValidDate h (str to_q) \<Longrightarrow>
   queryPrices h P assetIds asOf_q from_q to_q g = (Inl InvalidDate, g)"
  by (auto simp add: queryPrices_def Let_def)

lemma queryPrices_day:
  "truthy assetIds \<Longrightarrow> \<not> (truthy from_q \<and> truthy to_q) \<Longrightarrow> truthy asOf_q \<Longrightarrow>
   isValidDate h (str asOf_q) \<Longrightarrow>
   queryPrices h P assetIds asOf_q from_q to_q g =
     respond asOf_q (split_comma (str assetIds))
       (dayFilter h (parseDate h (str asOf_q)) (assetFilter (split_comma (str assetIds)) P)) g"
  by (auto simp add: queryPrices_def Let_def)

lemma queryPrices_day_invalid:
  "truthy assetIds \<Longrightarrow> \<not> (truthy from_q \<and> truthy to_q) \<Longrightarrow> truthy asOf_q \<Longrightarrow>
   \<not> isValidDate h (str asOf_q) \<Longrightarrow>
   queryPrices h P assetIds asOf_q from_q to_q g = (Inl InvalidDate, g)"
  by (auto simp add: queryPrices_def Let_def)

lemma queryPrices_plain:
  "truthy assetIds \<Longrightarrow> \<not> (truthy from_q \<and> truthy to_q) \<Longrightarrow> \<not> truthy asOf_q \<Longrightarrow>
   queryPrices h P assetIds asOf_q from_q to_q g =
     (Inr (map Stored (assetFilter (split_comma (str assetIds)) P)), g)"
  by (auto simp add: queryPrices_def Let_def respond_def)


subsection \<open>The latest-per-asset reduction\<close>

text \<open>
  The head of \<open>assetPrices\<close> is a record of the asset with the greatest timestamp;
  the list is empty exactly when the asset has no record among the filtered ones.
\<close>

lemma assetPrices_Nil:
  "(assetPrices fp a = []) = (filter (\<lambda>p. asset p = a) fp = [])"
proof -
  have "(assetPrices fp a = []) = (length (assetPrices fp a) = 0)" by simp
  also have "\<dots> = (length (filter (\<lambda>p. asset p = a) fp) = 0)"
    by (simp only: assetPrices_def length_sort)
  finally show ?thesis by simp
qed

lemma assetPrices_set: "set (assetPrices fp a) = {p \<in> set fp. asset p = a}"
  by (simp add: assetPrices_def)

lemma assetPrices_sorted: "sorted (map (\<lambda>p. - timestamp p) (assetPrices fp a))"
  by (simp add: assetPrices_def)

lemma assetPrices_Cons:
  assumes "assetPrices fp a = r # rs"
  shows "r \<in> set fp" and "asset r = a"
    and "\<And>q. q \<in> set fp \<Longrightarrow> asset q = a \<Longrightarrow> timestamp q \<le> timestamp r"
proof -
  have "r \<in> set (assetPrices fp a)" using assms by simp
  then show "r \<in> set fp" and "asset r = a" by (simp_all add: assetPrices_set)
next
  fix q assume "q \<in> set fp" "asset q = a"
  then have "q \<in> set (r # rs)" using assetPrices_set [of fp a] assms by simp
  moreover have "sorted (map (\<lambda>p. - timestamp p) (r # rs))"
    using assetPrices_sorted [of fp a] assms by simp
  ultimately show "timestamp q \<le> timestamp r" by auto
qed

lemma latestPrices_assets: "map entry_asset (fst (latestPrices fp req g)) = req"
proof (induction req arbitrary: g)
  case Nil
  show ?case by simp
next
  case (Cons a req)
  show ?case
  proof (cases "assetPrices fp a")
    case Nil
    then show ?thesis
      using Cons.IH [of "snd (uuidv4 g)"] by (simp add: split_beta)
  next
    case (Cons r rs)
    then have "asset r = a" by (rule assetPrices_Cons)
    then show ?thesis using Cons Cons.IH [of g] by (simp add: split_beta)
  qed
qed

lemma latestPrices_length: "length (fst (latestPrices fp req g)) = length req"
  using latestPrices_assets [of fp req g] by (metis length_map)

lemma latestPrices_nth:
  "i < length req \<Longrightarrow>
   (if filter (\<lambda>p. asset p = req ! i) fp = []
    then \<exists>u. fst (latestPrices fp req g) ! i = Placeholder u (req ! i) 0
    else \<exists>r. fst (latestPrices fp req g) ! i = Stored r \<and> r \<in> set fp \<and> asset r = req ! i \<and>
           (\<forall>q\<in>set fp. asset q = req ! i \<longrightarrow> timestamp q \<le> timestamp r))"
proof (induction req arbitrary: i g)
  case Nil
  then show ?case by simp
next
  case (Cons a req)
  show ?case
  proof (cases i)
    case 0
    show ?thesis
    proof (cases "assetPrices fp a")
      case Nil
      then have "filter (\<lambda>p. asset p = a) fp = []" by (simp add: assetPrices_Nil)
      then show ?thesis using Nil 0 by (simp add: split_beta)
    next
      case (Cons r rs)
      then have ne: "filter (\<lambda>p. asset p = a) fp \<noteq> []"
        using assetPrices_Nil [of fp a] by simp
      have "fst (latestPrices fp (a # req) g) ! 0 = Stored r"
        using Cons by (simp add: split_beta)
      moreover note assetPrices_Cons [OF Cons]
      ultimately show ?thesis using ne 0 by auto
    qed
  next
    case (Suc j)
    then have j: "j < length req" using Cons.prems by simp
    have "\<exists>g'. fst (latestPrices fp (a # req) g) ! i = fst (latestPrices fp req g') ! j"
      using Suc by (cases "assetPrices fp a") (auto simp: split_beta)
    then obtain g' where "fst (latestPrices fp (a # req) g) ! i = fst (latestPrices fp req g') ! j" ..
    then show ?thesis using Cons.IH [OF j, of g'] Suc by simp
  qed
qed

text \<open>
  The identifiers of the placeholders are the draws of the source, in order, and the source
  that is left has lost exactly these.
\<close>

lemma latestPrices_uuids:
  "map entry_id (filter is_placeholder (fst (latestPrices fp req g)))
     = map g [0..<length (filter is_placeholder (fst (latestPrices fp req g)))] \<and>
   snd (latestPrices fp req g) = (\<lambda>n. g (n + length (filter is_placeholder (fst (latestPrices fp req g)))))"
proof (induction req arbitrary: g)
  case Nil
  show ?case by simp
next
  case (Cons a req)
  show ?case
  proof (cases "assetPrices fp a")
    case Nil
    let ?g = "\<lambda>n. g (Suc n)"
    let ?k = "length (filter is_placeholder (fst (latestPrices fp req ?g)))"
    have "map g [0..<Suc ?k] = g 0 # map ?g [0..<?k]"
      by (simp only: upt_conv_Cons [of 0] list.map map_Suc_upt [symmetric] map_map o_def)
    then show ?thesis
      using Cons.IH [of ?g] Nil by (simp add: split_beta uuidv4_def)
  next
    case (Cons r rs)
    then show ?thesis using Cons.IH [of g] by (simp add: split_beta)
  qed
qed


subsection \<open>The filters, and what the reduction returns\<close>

lemma dayFilter_asset:
  "a \<in> set req \<Longrightarrow>
   filter (\<lambda>p. asset p = a) (dayFilter h d (assetFilter req P))
     = filter (\<lambda>p. asset p = a \<and> toDateString h (Some (timestamp p)) = toDateString h d) P"
  by (auto simp: dayFilter_def assetFilter_def intro: filter_cong)

lemma rangeFilter_asset:
  "a \<in> set req \<Longrightarrow>
   filter (\<lambda>p. asset p = a) (rangeFilter (Some f) (Some t) (assetFilter req P))
     = filter (\<lambda>p. asset p = a \<and> f \<le> timestamp p \<and> timestamp p \<le> t) P"
  by (auto simp: rangeFilter_def assetFilter_def date_ge_def date_le_def intro: filter_cong)

lemma set_dayFilter:
  "set (dayFilter h d (assetFilter req P))
     = {p \<in> set P. asset p \<in> set req \<and> toDateString h (Some (timestamp p)) = toDateString h d}"
  by (auto simp: dayFilter_def assetFilter_def)

lemma set_rangeFilter:
  "set (rangeFilter (Some f) (Some t) (assetFilter req P))
     = {p \<in> set P. asset p \<in> set req \<and> f \<le> timestamp p \<and> timestamp p \<le> t}"
  by (auto simp: rangeFilter_def assetFilter_def date_ge_def date_le_def)

lemma respond_reduced:
  "truthy asOf_q \<Longrightarrow>
   respond asOf_q req fp g = (Inr (fst (latestPrices fp req g)), snd (latestPrices fp req g))"
  by (simp add: respond_def split_beta)

lemma latestPrices_Stored:
  "Stored r \<in> set (fst (latestPrices fp req g)) \<Longrightarrow> r \<in> set fp \<and> asset r \<in> set req"
proof (induction req arbitrary: g)
  case Nil
  then show ?case by simp
next
  case (Cons a req)
  show ?case
  proof (cases "assetPrices fp a")
    case Nil
    then show ?thesis using Cons.prems Cons.IH [of "snd (uuidv4 g)"] by (auto simp: split_beta)
  next
    case (Cons x xs)
    note hd = assetPrices_Cons(1,2) [OF Cons]
    show ?thesis using Cons Cons.prems Cons.IH [of g] hd by (auto simp: split_beta)
  qed
qed

lemma latestPrices_Placeholder:
  "Placeholder u a p \<in> set (fst (latestPrices fp req g)) \<Longrightarrow>
   a \<in> set req \<and> p = 0 \<and> filter (\<lambda>q. asset q = a) fp = []"
proof (induction req arbitrary: g)
  case Nil
  then show ?case by simp
next
  case (Cons b req)
  show ?case
  proof (cases "assetPrices fp b")
    case Nil
    then have "filter (\<lambda>q. asset q = b) fp = []" by (simp add: assetPrices_Nil)
    then show ?thesis
      using Nil Cons.prems Cons.IH [of "snd (uuidv4 g)"] by (auto simp: split_beta)
  next
    case (Cons x xs)
    then show ?thesis using Cons.prems Cons.IH [of g] by (auto simp: split_beta)
  qed
qed

lemma count_list_filter:
  "count_list (filter Q xs) x = (if Q x then count_list xs x else 0)"
  by (induction xs) auto


subsection \<open>The branches of GET /portfolios\<close>

lemma queryPortfolio_invalid:
  "truthy asOf_q \<Longrightarrow> \<not> isValidDate h (str asOf_q) \<Longrightarrow>
   queryPortfolio h positions asOf_q now g = (Inl InvalidDate, g)"
  by (simp add: queryPortfolio_def)

lemma queryPortfolio_answer:
  "\<not> (truthy asOf_q \<and> \<not> isValidDate h (str asOf_q)) \<Longrightarrow>
   queryPortfolio h positions asOf_q now g =
     (Inr \<lparr> pf_id = g 0,
            pf_asOf = (if truthy asOf_q then str asOf_q else now),
            pf_positions = (if truthy asOf_q
                            then positionFilter h (parseDate h (str asOf_q)) positions
                            else positions) \<rparr>,
      (\<lambda>n. g (Suc n)))"
  by (auto simp: queryPortfolio_def snapshot_def uuidv4_def)

lemma respond_not_error: "fst (respond asOf_q req fp g) \<noteq> Inl e"
  by (simp add: respond_def split_beta)


subsection \<open>Answers under two identifier sources\<close>

text \<open>
  The source of identifiers reaches the answer of \<^verbatim>\<open>GET /prices\<close> only through the
  identifiers of the placeholders.
\<close>

lemma latestPrices_without_id:
  "map without_id (fst (latestPrices fp req g)) = map without_id (fst (latestPrices fp req g'))"
proof (induction req arbitrary: g g')
  case Nil
  show ?case by simp
next
  case (Cons a req)
  show ?case
  proof (cases "assetPrices fp a")
    case Nil
    then show ?thesis
      using Cons.IH [of "snd (uuidv4 g)" "snd (uuidv4 g')"] by (simp add: split_beta)
  next
    case (Cons r rs)
    then show ?thesis using Cons.IH [of g g'] by (simp add: split_beta)
  qed
qed

lemma respond_without_ids:
  "without_ids (fst (respond asOf_q req fp g)) = without_ids (fst (respond asOf_q req fp g'))"
  using latestPrices_without_id [of fp req g g']
  by (simp add: respond_def without_ids_def split_beta)

lemma without_id_no_placeholder:
  "map without_id es = map without_id es' \<Longrightarrow> \<not> list_ex is_placeholder es \<Longrightarrow> es' = es"
proof (induction es arbitrary: es')
  case Nil
  then show ?case by simp
next
  case (Cons e es)
  then obtain e' es'' where es': "es' = e' # es''" by (cases es') auto
  with Cons.prems have "without_id e = without_id e'" "\<not> is_placeholder e" by simp_all
  then have "e' = e" by (cases e; cases e') simp_all
  moreover have "es'' = es" using Cons.IH [of es''] Cons.prems es' by simp
  ultimately show ?case using es' by simp
qed


subsection \<open>Claims\<close>

text \<open>
  C5. A call of \<open>queryPrices\<close> whose \<^verbatim>\<open>assets\<close> parameter is absent or empty fails
  with \<open>MissingParameter\<close>, whatever the other parameters are; it returns no list and
  draws no identifier.
\<close>

theorem missing_assets_rejected:
  "queryPrices h P None asOf_q from_q to_q g = (Inl MissingParameter, g) \<and>
   queryPrices h P (Some []) asOf_q from_q to_q g = (Inl MissingParameter, g)"
  by (simp add: queryPrices_missing truthy_def)

theorem missing_assets_rejected_witness:
  "queryPrices demo_host demo_prices None (Some ''2023-01-08'') (Some ''2023-01-01'') (Some ''not-a-date'') demo_uuids
     = (Inl MissingParameter, demo_uuids) \<and>
   queryPrices demo_host demo_prices (Some []) (Some ''2023-01-08'') (Some ''2023-01-01'') (Some ''not-a-date'') demo_uuids
     = (Inl MissingParameter, demo_uuids)"
  using missing_assets_rejected [of demo_host demo_prices "Some ''2023-01-08''" "Some ''2023-01-01''"
      "Some ''not-a-date''" demo_uuids]
  by simp


text \<open>
  C9. A price query that supplies exactly one of \<^verbatim>\<open>from\<close> and \<^verbatim>\<open>to\<close> is
  answered as the same query with neither: the lone bound is ignored entirely, whether it
  parses or not.
\<close>

theorem lone_bound_ignored:
  "queryPrices h P assetIds asOf_q (Some f) None g = queryPrices h P assetIds asOf_q None None g \<and>
   queryPrices h P assetIds asOf_q None (Some t) g = queryPrices h P assetIds asOf_q None None g"
  by (simp add: queryPrices_def truthy_def)

theorem lone_bound_ignored_witness:
  "fst (queryPrices demo_host demo_prices (Some ''Ethereum'') None (Some ''2023-01-08'') None demo_uuids)
     = Inr [Stored eth1, Stored eth2] \<and>
   fst (queryPrices demo_host demo_prices (Some ''Ethereum'') None None (Some ''2023-01-01'') demo_uuids)
     = Inr [Stored eth1, Stored eth2]"
  using lone_bound_ignored [of demo_host demo_prices "Some ''Ethereum''" None "''2023-01-08''" demo_uuids "''2023-01-01''"]
  by (simp add: defs demo)

text \<open>
  C7. With a non-empty \<^verbatim>\<open>assets\<close> and no date parameter, \<open>queryPrices\<close> returns
  exactly the stored records whose asset is among the requested names: in the order of the
  store, every such record as often as the store holds it, and no other record.
\<close>

theorem asset_subset_in_order:
  assumes "truthy assetIds"
  defines "req \<equiv> split_comma (str assetIds)"
  shows "\<exists>rs. queryPrices h P assetIds None None None g = (Inr (map Stored rs), g) \<and>
           rs = filter (\<lambda>p. asset p \<in> set req) P \<and>
           subseq rs P \<and>
           (\<forall>r. count_list rs r = (if asset r \<in> set req then count_list P r else 0))"
proof -
  have "queryPrices h P assetIds None None None g
      = (Inr (map Stored (filter (\<lambda>p. asset p \<in> set req) P)), g)"
    using queryPrices_plain [OF assms(1), of None None None h P g]
    by (simp add: truthy_def assetFilter_def req_def)
  then show ?thesis by (simp add: count_list_filter)
qed

theorem asset_subset_in_order_witness:
  "queryPrices demo_host demo_prices (Some ''Ethereum,Doge'') None None None demo_uuids
     = (Inr [Stored eth1, Stored eth2], demo_uuids) \<and>
   subseq [eth1, eth2] demo_prices"
proof -
  have a: "truthy (Some ''Ethereum,Doge'')" by (simp add: truthy_def)
  have f: "filter (\<lambda>p. asset p \<in> set (split_comma (str (Some ''Ethereum,Doge'')))) demo_prices = [eth1, eth2]"
    by (simp add: str_def demo)
  from asset_subset_in_order [OF a, of demo_host demo_prices demo_uuids]
  show ?thesis by (simp only: f) simp
qed

text \<open>
  C8. With both \<^verbatim>\<open>from\<close> and \<^verbatim>\<open>to\<close> valid and \<open>from \<le> to\<close>, every stored
  record in the answer is a record of the store with a requested asset and a timestamp
  \<open>t\<close> such that \<open>from \<le> t \<le> to\<close>, compared as instants. Without \<^verbatim>\<open>asOf\<close>
  the answer is exactly the list of these records. With \<^verbatim>\<open>asOf\<close> the answer may
  also hold placeholders, which have no timestamp: each stands for a requested asset with
  no record in the range.
\<close>

theorem range_results_within_bounds:
  assumes "truthy assetIds" and "truthy from_q" and "truthy to_q"
    and "parseDate h (str from_q) = Some f" and "parseDate h (str to_q) = Some t"
    and "f \<le> t"
  defines "req \<equiv> split_comma (str assetIds)"
  shows "\<exists>es g1. queryPrices h P assetIds asOf_q from_q to_q g = (Inr es, g1) \<and>
           (\<forall>r. Stored r \<in> set es \<longrightarrow>
                  r \<in> set P \<and> asset r \<in> set req \<and> f \<le> timestamp r \<and> timestamp r \<le> t) \<and>
           (\<forall>u a p. Placeholder u a p \<in> set es \<longrightarrow>
                  truthy asOf_q \<and> a \<in> set req \<and> p = 0 \<and>
                  filter (\<lambda>q. asset q = a \<and> f \<le> timestamp q \<and> timestamp q \<le> t) P = []) \<and>
           (\<not> truthy asOf_q \<longrightarrow>
              es = map Stored
                     (filter (\<lambda>p. asset p \<in> set req \<and> f \<le> timestamp p \<and> timestamp p \<le> t) P))"
proof -
  let ?fp = "rangeFilter (Some f) (Some t) (assetFilter req P)"
  have valid: "isValidDate h (str from_q)" "isValidDate h (str to_q)"
    using assms(4,5) by (simp_all add: isValidDate_def)
  have run: "queryPrices h P assetIds asOf_q from_q to_q g = respond asOf_q req ?fp g"
    using queryPrices_range [OF assms(1-3) valid, of P asOf_q g] assms(4,5) by (simp add: req_def)
  have fp: "?fp = filter (\<lambda>p. asset p \<in> set req \<and> f \<le> timestamp p \<and> timestamp p \<le> t) P"
    by (auto simp: rangeFilter_def assetFilter_def date_ge_def date_le_def intro: filter_cong)
  show ?thesis
  proof (cases "truthy asOf_q")
    case False
    then have "queryPrices h P assetIds asOf_q from_q to_q g = (Inr (map Stored ?fp), g)"
      using run by (simp add: respond_def)
    then show ?thesis using False fp by (auto simp: set_rangeFilter)
  next
    case True
    let ?es = "fst (latestPrices ?fp req g)"
    have "queryPrices h P assetIds asOf_q from_q to_q g = (Inr ?es, snd (latestPrices ?fp req g))"
      using run by (simp add: respond_reduced [OF True])
    moreover have "r \<in> set P \<and> asset r \<in> set req \<and> f \<le> timestamp r \<and> timestamp r \<le> t"
      if "Stored r \<in> set ?es" for r
      using latestPrices_Stored [OF that] by (simp add: set_rangeFilter)
    moreover have "a \<in> set req \<and> p = 0 \<and>
        filter (\<lambda>q. asset q = a \<and> f \<le> timestamp q \<and> timestamp q \<le> t) P = []"
      if "Placeholder u a p \<in> set ?es" for u a p
    proof -
      note ph = latestPrices_Placeholder [OF that]
      then have "a \<in> set req" by simp
      from rangeFilter_asset [OF this, of f t P] ph show ?thesis by simp
    qed
    ultimately show ?thesis using True by blast
  qed
qed

theorem range_results_within_bounds_witness:
  "queryPrices demo_host demo_prices (Some ''Bitcoin,Ethereum'') None (Some ''2023-01-08'') (Some ''2023-01-15'') demo_uuids
     = (Inr [Stored btc2, Stored btc3, Stored eth2], demo_uuids) \<and>
   (1673136000000::int) \<le> 1673740800000 \<and>
   1673136000000 \<le> timestamp btc2 \<and> timestamp btc2 \<le> 1673740800000 \<and>
   1673136000000 \<le> timestamp btc3 \<and> timestamp btc3 \<le> 1673740800000 \<and>
   1673136000000 \<le> timestamp eth2 \<and> timestamp eth2 \<le> 1673740800000"
proof -
  have a: "truthy (Some ''Bitcoin,Ethereum'')" "truthy (Some ''2023-01-08'')" "truthy (Some ''2023-01-15'')"
    by (simp_all add: truthy_def)
  have b: "parseDate demo_host (str (Some ''2023-01-08'')) = Some 1673136000000"
    "parseDate demo_host (str (Some ''2023-01-15'')) = Some 1673740800000"
    by (simp_all add: demo str_def)
  have c: "(1673136000000::int) \<le> 1673740800000" by simp
  have run: "queryPrices demo_host demo_prices (Some ''Bitcoin,Ethereum'') None (Some ''2023-01-08'') (Some ''2023-01-15'') demo_uuids
     = (Inr [Stored btc2, Stored btc3, Stored eth2], demo_uuids)"
    by (simp add: defs demo)
  from range_results_within_bounds [OF a b c, of demo_prices None demo_uuids] run
  show ?thesis by auto
qed

text \<open>
  C1, as the code has it. The final test of the handler is \<^verbatim>\<open>if (asOf)\<close> alone: for
  every accepted price query the latest-per-asset reduction is applied exactly when
  \<^verbatim>\<open>asOf\<close> is supplied and not empty, whether the records were filtered by the
  \<^verbatim>\<open>from\<close>/\<^verbatim>\<open>to\<close> range, by the day of \<^verbatim>\<open>asOf\<close> or by asset only.
  With a complete valid range and \<^verbatim>\<open>asOf\<close> the answer is the reduction of the
  range-filtered records; without \<^verbatim>\<open>asOf\<close> it is the filtered, unreduced list.
\<close>

theorem reduction_follows_asOf:
  fixes P :: "price_record list"
  assumes "truthy assetIds"
    and "if truthy from_q \<and> truthy to_q
         then isValidDate h (str from_q) \<and> isValidDate h (str to_q)
         else truthy asOf_q \<longrightarrow> isValidDate h (str asOf_q)"
  defines "req \<equiv> split_comma (str assetIds)"
  defines "fp \<equiv>
     (if truthy from_q \<and> truthy to_q
      then rangeFilter (parseDate h (str from_q)) (parseDate h (str to_q)) (assetFilter req P)
      else if truthy asOf_q then dayFilter h (parseDate h (str asOf_q)) (assetFilter req P)
      else assetFilter req P)"
  shows "queryPrices h P assetIds asOf_q from_q to_q g =
           (if truthy asOf_q
            then (Inr (fst (latestPrices fp req g)), snd (latestPrices fp req g))
            else (Inr (map Stored fp), g))"
proof (cases "truthy from_q \<and> truthy to_q")
  case True
  with assms(2) have "isValidDate h (str from_q)" "isValidDate h (str to_q)" by simp_all
  from queryPrices_range [OF assms(1) _ _ this, of P asOf_q g] True
  show ?thesis by (simp add: req_def fp_def respond_def split_beta)
next
  case False
  show ?thesis
  proof (cases "truthy asOf_q")
    case True
    with assms(2) False have "isValidDate h (str asOf_q)" by simp
    from queryPrices_day [OF assms(1) False True this, of P g] True False
    show ?thesis by (auto simp: req_def fp_def respond_def split_beta)
  next
    case no_asOf: False
    from queryPrices_plain [OF assms(1) False no_asOf, of h P g] False no_asOf
    show ?thesis by (auto simp: req_def fp_def)
  qed
qed

theorem reduction_follows_asOf_witness:
  "queryPrices demo_host demo_prices (Some ''Bitcoin'') (Some ''2023-01-15'')
     (Some ''2023-01-01'') (Some ''2023-01-15'') demo_uuids = (Inr [Stored btc3], demo_uuids) \<and>
   queryPrices demo_host demo_prices (Some ''Bitcoin'') None
     (Some ''2023-01-01'') (Some ''2023-01-15'') demo_uuids
     = (Inr [Stored btc1, Stored btc2, Stored btc3], demo_uuids)"
proof -
  have a: "truthy (Some ''Bitcoin'')" by (simp add: truthy_def)
  have b: "if truthy (Some ''2023-01-01'') \<and> truthy (Some ''2023-01-15'')
      then isValidDate demo_host (str (Some ''2023-01-01'')) \<and> isValidDate demo_host (str (Some ''2023-01-15''))
      else truthy q \<longrightarrow> isValidDate demo_host (str q)" for q
    by (simp add: truthy_def isValidDate_def str_def demo)
  have c: "latestPrices [btc1, btc2, btc3] [''Bitcoin''] demo_uuids = ([Stored btc3], demo_uuids)"
    by (simp add: defs demo)
  have d: "rangeFilter (Some 1672531200000) (Some 1673740800000)
             (assetFilter [''Bitcoin''] demo_prices) = [btc1, btc2, btc3]"
    by (simp add: defs demo)
  have e: "parseDate demo_host ''2023-01-01'' = Some 1672531200000"
    "parseDate demo_host ''2023-01-15'' = Some 1673740800000"
    by (simp_all add: demo)
  from reduction_follows_asOf [OF a b, of demo_prices "Some ''2023-01-15''" demo_uuids]
    reduction_follows_asOf [OF a b, of demo_prices None demo_uuids]
  show ?thesis by (simp add: truthy_def str_def e c d del: latestPrices.simps)
qed

text \<open>
  C1 as stated fails: with a complete range and \<^verbatim>\<open>asOf\<close> both supplied, the answer
  is not the range-filtered collection (three Bitcoin records here) but its reduction.
\<close>

theorem range_with_asOf_reduced_counterexample:
  "fst (queryPrices demo_host demo_prices (Some ''Bitcoin'') (Some ''2023-01-15'')
          (Some ''2023-01-01'') (Some ''2023-01-15'') demo_uuids)
     \<noteq> Inr (map Stored (rangeFilter (parseDate demo_host ''2023-01-01'') (parseDate demo_host ''2023-01-15'')
                 (assetFilter (split_comma ''Bitcoin'') demo_prices)))"
  by (simp add: defs demo)

text \<open>
  C4, as the code has it. For a valid \<^verbatim>\<open>asOf\<close>, a non-empty \<^verbatim>\<open>assets\<close> and no
  complete \<^verbatim>\<open>from\<close>/\<^verbatim>\<open>to\<close> range, the answer has one entry per requested
  asset, in the order requested. The entry of an asset with a stored record on the calendar
  day of \<^verbatim>\<open>asOf\<close> is such a record, of the greatest timestamp among them; the entry
  of an asset without one is a placeholder of that asset with price 0. The placeholders'
  identifiers are the successive draws of \<^verbatim>\<open>uuidv4()\<close>, and the source has lost
  exactly these.
\<close>

theorem reduced_one_entry_per_asset:
  assumes assets: "truthy assetIds"
    and no_range: "\<not> (truthy from_q \<and> truthy to_q)"
    and asOf: "truthy asOf_q" "parseDate h (str asOf_q) = Some d"
  defines "req \<equiv> split_comma (str assetIds)"
  shows "\<exists>es k. queryPrices h P assetIds asOf_q from_q to_q g = (Inr es, (\<lambda>n. g (n + k))) \<and>
           map entry_asset es = req \<and>
           (\<forall>i<length req.
              if filter (\<lambda>p. asset p = req ! i \<and> dateString h (timestamp p) = dateString h d) P = []
              then \<exists>u. es ! i = Placeholder u (req ! i) 0
              else \<exists>r. es ! i = Stored r \<and> r \<in> set P \<and> asset r = req ! i \<and>
                     dateString h (timestamp r) = dateString h d \<and>
                     (\<forall>q\<in>set P. asset q = req ! i \<and> dateString h (timestamp q) = dateString h d
                        \<longrightarrow> timestamp q \<le> timestamp r)) \<and>
           k = length (filter is_placeholder es) \<and>
           map entry_id (filter is_placeholder es) = map g [0..<k]"
proof -
  let ?fp = "dayFilter h (Some d) (assetFilter req P)"
  let ?es = "fst (latestPrices ?fp req g)"
  let ?k = "length (filter is_placeholder ?es)"
  have valid: "isValidDate h (str asOf_q)" using asOf by (simp add: isValidDate_def)
  have run: "queryPrices h P assetIds asOf_q from_q to_q g = (Inr ?es, (\<lambda>n. g (n + ?k)))"
    using queryPrices_day [OF assets no_range asOf(1) valid, of P g] asOf(2)
      latestPrices_uuids [of ?fp req g]
    by (simp add: respond_reduced [OF asOf(1)] req_def)
  have each: "if filter (\<lambda>p. asset p = req ! i \<and> dateString h (timestamp p) = dateString h d) P = []
      then \<exists>u. ?es ! i = Placeholder u (req ! i) 0
      else \<exists>r. ?es ! i = Stored r \<and> r \<in> set P \<and> asset r = req ! i \<and>
             dateString h (timestamp r) = dateString h d \<and>
             (\<forall>q\<in>set P. asset q = req ! i \<and> dateString h (timestamp q) = dateString h d
                \<longrightarrow> timestamp q \<le> timestamp r)"
    if i: "i < length req" for i
  proof -
    have mem: "req ! i \<in> set req" using i by simp
    show ?thesis
      using latestPrices_nth [OF i, of ?fp g]
      by (simp only: dayFilter_asset [OF mem] set_dayFilter)
         (auto simp: toDateString_def mem)
  qed
  show ?thesis
    using run each latestPrices_assets [of ?fp req g] latestPrices_uuids [of ?fp req g]
    by blast
qed

theorem reduced_one_entry_per_asset_witness:
  "\<exists>es k. queryPrices demo_host demo_prices (Some ''Bitcoin,Doge,Ethereum'') (Some ''2023-01-08'') None None demo_uuids
             = (Inr es, (\<lambda>n. demo_uuids (n + k))) \<and>
          map entry_asset es = [''Bitcoin'', ''Doge'', ''Ethereum''] \<and>
          es ! 0 = Stored btc3 \<and> es ! 2 = Stored eth2 \<and> is_placeholder (es ! 1) \<and>
          map entry_id (filter is_placeholder es) = map demo_uuids [0..<k]"
proof -
  have a: "truthy (Some ''Bitcoin,Doge,Ethereum'')" by (simp add: truthy_def)
  have b: "\<not> (truthy None \<and> truthy None)" by (simp add: truthy_def)
  have c: "truthy (Some ''2023-01-08'')" by (simp add: truthy_def)
  have d: "parseDate demo_host (str (Some ''2023-01-08'')) = Some 1673136000000"
    by (simp add: demo str_def)
  have run: "fst (queryPrices demo_host demo_prices (Some ''Bitcoin,Doge,Ethereum'') (Some ''2023-01-08'') None None demo_uuids)
      = Inr [Stored btc3, Placeholder ''u'' ''Doge'' 0, Stored eth2]"
    by (simp add: defs demo demo_uuids_def)
  from reduced_one_entry_per_asset [OF a b c d, of demo_prices demo_uuids]
  obtain es k where
    "queryPrices demo_host demo_prices (Some ''Bitcoin,Doge,Ethereum'') (Some ''2023-01-08'') None None demo_uuids
       = (Inr es, (\<lambda>n. demo_uuids (n + k)))"
    "map entry_asset es = split_comma (str (Some ''Bitcoin,Doge,Ethereum''))"
    "map entry_id (filter is_placeholder es) = map demo_uuids [0..<k]"
    by blast
  with run show ?thesis by (auto simp: str_def)
qed

text \<open>
  C4 as stated, for every valid \<^verbatim>\<open>asOf\<close>, fails where a complete range is supplied
  too: the answer for Bitcoin as of 15 January is then the record of 8 January, which is no
  same-day match.
\<close>

theorem reduced_range_counterexample:
  "fst (queryPrices demo_host demo_prices (Some ''Bitcoin'') (Some ''2023-01-15'')
          (Some ''2023-01-01'') (Some ''2023-01-15'') demo_uuids) = Inr [Stored btc3] \<and>
   dateString demo_host (timestamp btc3) \<noteq> dateString demo_host 1673740800000 \<and>
   parseDate demo_host ''2023-01-15'' = Some 1673740800000"
  by (simp add: defs demo)

text \<open>
  C10. Where the reduction runs, the answer has one entry per element of the requested
  list, in its order: an asset named twice gets two entries, so that the answer is as long
  as the list and, when the list has a duplicate, longer than the number of distinct
  assets.
\<close>

theorem reduced_keeps_duplicates:
  assumes "truthy assetIds" and "truthy asOf_q"
    and "if truthy from_q \<and> truthy to_q
         then isValidDate h (str from_q) \<and> isValidDate h (str to_q)
         else isValidDate h (str asOf_q)"
  defines "req \<equiv> split_comma (str assetIds)"
  shows "\<exists>es g1. queryPrices h P assetIds asOf_q from_q to_q g = (Inr es, g1) \<and>
           map entry_asset es = req \<and>
           length es = length req \<and>
           (\<not> distinct req \<longrightarrow> card (set req) < length es)"
proof -
  obtain fp where run: "queryPrices h P assetIds asOf_q from_q to_q g = respond asOf_q req fp g"
  proof (cases "truthy from_q \<and> truthy to_q")
    case True
    with assms(3) have "isValidDate h (str from_q)" "isValidDate h (str to_q)" by simp_all
    from queryPrices_range [OF assms(1) _ _ this, of P asOf_q g] True that
    show ?thesis by (simp add: req_def)
  next
    case False
    with assms(3) have "isValidDate h (str asOf_q)" by simp
    from queryPrices_day [OF assms(1) False assms(2) this, of P g] that
    show ?thesis by (simp add: req_def)
  qed
  let ?es = "fst (latestPrices fp req g)"
  have "queryPrices h P assetIds asOf_q from_q to_q g = (Inr ?es, snd (latestPrices fp req g))"
    using run by (simp add: respond_reduced [OF assms(2)])
  moreover have "map entry_asset ?es = req" by (rule latestPrices_assets)
  moreover have len: "length ?es = length req" by (rule latestPrices_length)
  moreover have "card (set req) < length ?es" if "\<not> distinct req"
  proof -
    have "card (set req) \<le> length req" by (rule card_length)
    moreover have "card (set req) \<noteq> length req" using that card_distinct by blast
    ultimately show ?thesis using len by simp
  qed
  ultimately show ?thesis by blast
qed

theorem reduced_keeps_duplicates_witness:
  "queryPrices demo_host demo_prices (Some ''Bitcoin,Ethereum,Bitcoin'') (Some ''2023-01-08'') None None demo_uuids
     = (Inr [Stored btc3, Stored eth2, Stored btc3], demo_uuids) \<and>
   \<not> distinct (split_comma ''Bitcoin,Ethereum,Bitcoin'') \<and>
   card (set (split_comma ''Bitcoin,Ethereum,Bitcoin'')) < length [Stored btc3, Stored eth2, Stored btc3]"
proof -
  have a: "truthy (Some ''Bitcoin,Ethereum,Bitcoin'')" "truthy (Some ''2023-01-08'')"
    by (simp_all add: truthy_def)
  have b: "if truthy None \<and> truthy None
      then isValidDate demo_host (str None) \<and> isValidDate demo_host (str None)
      else isValidDate demo_host (str (Some ''2023-01-08''))"
    by (simp add: truthy_def isValidDate_def str_def demo)
  have run: "queryPrices demo_host demo_prices (Some ''Bitcoin,Ethereum,Bitcoin'') (Some ''2023-01-08'') None None demo_uuids
     = (Inr [Stored btc3, Stored eth2, Stored btc3], demo_uuids)"
    by (simp add: defs demo)
  have dup: "\<not> distinct (split_comma ''Bitcoin,Ethereum,Bitcoin'')" by simp
  from reduced_keeps_duplicates [OF a b, of demo_prices demo_uuids] run dup
  show ?thesis by (auto simp: str_def)
qed

text \<open>
  C2, as the code has it. \<open>queryPrices\<close> fails with \<open>InvalidDate\<close> exactly when
  \<^verbatim>\<open>assets\<close> is not empty and either \<^verbatim>\<open>from\<close> and \<^verbatim>\<open>to\<close> are both
  supplied and one of them does not parse, or they are not both supplied and \<^verbatim>\<open>asOf\<close>
  is supplied and does not parse. \<open>queryPortfolio\<close> fails with \<open>InvalidDate\<close> exactly
  when \<^verbatim>\<open>asOf\<close> is supplied and does not parse. Supplied means present and not empty.
\<close>

theorem invalid_date_rejected:
  "(fst (queryPrices h P assetIds asOf_q from_q to_q g) = Inl InvalidDate) =
     (truthy assetIds \<and>
      (if truthy from_q \<and> truthy to_q
       then \<not> isValidDate h (str from_q) \<or> \<not> isValidDate h (str to_q)
       else truthy asOf_q \<and> \<not> isValidDate h (str asOf_q))) \<and>
   (fst (queryPortfolio h positions asOf_q now g) = Inl InvalidDate) =
     (truthy asOf_q \<and> \<not> isValidDate h (str asOf_q))"
proof -
  have prices: "(fst (queryPrices h P assetIds asOf_q from_q to_q g) = Inl InvalidDate) =
     (truthy assetIds \<and>
      (if truthy from_q \<and> truthy to_q
       then \<not> isValidDate h (str from_q) \<or> \<not> isValidDate h (str to_q)
       else truthy asOf_q \<and> \<not> isValidDate h (str asOf_q)))"
    by (simp add: queryPrices_def Let_def respond_not_error)
  have portfolio: "(fst (queryPortfolio h positions asOf_q now g) = Inl InvalidDate) =
     (truthy asOf_q \<and> \<not> isValidDate h (str asOf_q))"
    by (simp add: queryPortfolio_def snapshot_def split_beta)
  from prices portfolio show ?thesis by (rule conjI)
qed

theorem invalid_date_rejected_witness:
  "fst (queryPrices demo_host demo_prices (Some ''Bitcoin'') (Some ''not-a-date'') None None demo_uuids)
     = Inl InvalidDate \<and>
   fst (queryPrices demo_host demo_prices (Some ''Bitcoin'') None (Some ''2023-01-01'') (Some ''not-a-date'') demo_uuids)
     = Inl InvalidDate \<and>
   fst (queryPortfolio demo_host demo_positions (Some ''not-a-date'') ''2024-06-16T09:00:00.000Z'' demo_uuids)
     = Inl InvalidDate"
  using invalid_date_rejected [of demo_host demo_prices "Some ''Bitcoin''" "Some ''not-a-date''" None None
      demo_uuids demo_positions "''2024-06-16T09:00:00.000Z''"]
    invalid_date_rejected [of demo_host demo_prices "Some ''Bitcoin''" None "Some ''2023-01-01''"
      "Some ''not-a-date''" demo_uuids demo_positions "''2024-06-16T09:00:00.000Z''"]
  by (simp add: truthy_def str_def isValidDate_def demo)

text \<open>
  C2 as stated fails for a lone bound: \<^verbatim>\<open>from=not-a-date\<close> without \<^verbatim>\<open>to\<close> is
  never validated, and the request is answered with the list of the asset's records.
\<close>

theorem lone_unparseable_bound_counterexample:
  "fst (queryPrices demo_host demo_prices (Some ''Bitcoin'') None (Some ''not-a-date'') None demo_uuids)
     = Inr [Stored btc1, Stored btc2, Stored btc3] \<and>
   parseDate demo_host ''not-a-date'' = None"
  by (simp add: defs demo)

text \<open>
  C6. For a valid \<^verbatim>\<open>asOf\<close>, \<open>queryPortfolio\<close> returns the positions whose
  \<^verbatim>\<open>asOf\<close> field has the same \<^verbatim>\<open>toDateString()\<close> as the query's date, that is
  the same calendar day whatever the time of day, in the order of the store, and the
  snapshot's \<^verbatim>\<open>asOf\<close> is the string given. With no \<^verbatim>\<open>asOf\<close> (absent, or
  empty) it returns all positions, and the snapshot's \<^verbatim>\<open>asOf\<close> is the clock reading. The snapshot's
  identifier is the next draw of \<^verbatim>\<open>uuidv4()\<close>.
\<close>

theorem portfolio_by_day:
  "(truthy asOf_q \<and> isValidDate h (str asOf_q) \<longrightarrow>
      queryPortfolio h positions asOf_q now g =
        (Inr \<lparr> pf_id = g 0, pf_asOf = str asOf_q,
               pf_positions =
                 filter (\<lambda>p. toDateString h (parseDate h (asOf p))
                              = toDateString h (parseDate h (str asOf_q))) positions \<rparr>,
         (\<lambda>n. g (Suc n)))) \<and>
   (\<not> truthy asOf_q \<longrightarrow>
      queryPortfolio h positions asOf_q now g =
        (Inr \<lparr> pf_id = g 0, pf_asOf = now, pf_positions = positions \<rparr>, (\<lambda>n. g (Suc n))))"
  using queryPortfolio_answer [of asOf_q h positions now g]
  by (simp add: positionFilter_def)

theorem portfolio_by_day_witness:
  "fst (queryPortfolio demo_host demo_positions (Some ''2024-06-15'') ''2024-06-16T09:00:00.000Z'' demo_uuids)
     = Inr \<lparr> pf_id = ''u'', pf_asOf = ''2024-06-15'', pf_positions = [pos1, pos2] \<rparr> \<and>
   fst (queryPortfolio demo_host demo_positions None ''2024-06-16T09:00:00.000Z'' demo_uuids)
     = Inr \<lparr> pf_id = ''u'', pf_asOf = ''2024-06-16T09:00:00.000Z'', pf_positions = [pos1, pos2, pos3] \<rparr>"
proof -
  have a: "truthy (Some ''2024-06-15'') \<and> isValidDate demo_host (str (Some ''2024-06-15''))"
    by (simp add: truthy_def isValidDate_def str_def demo)
  have b: "\<not> truthy None" by (simp add: truthy_def)
  have f: "filter (\<lambda>p. toDateString demo_host (parseDate demo_host (asOf p))
                 = toDateString demo_host (parseDate demo_host (str (Some ''2024-06-15'')))) demo_positions
           = [pos1, pos2]"
    by (simp add: toDateString_def str_def demo)
  from portfolio_by_day [of "Some ''2024-06-15''" demo_host demo_positions "''2024-06-16T09:00:00.000Z''" demo_uuids] a
    portfolio_by_day [of None demo_host demo_positions "''2024-06-16T09:00:00.000Z''" demo_uuids] b
  show ?thesis by (simp add: f) (simp add: str_def demo_uuids_def demo_positions_def)
qed

text \<open>
  C3, as the code has it. Two answers to one request over one Record Store, under any two
  identifier sources and clock readings, are both the same error or both a result, and the
  results agree on everything but the identifiers drawn for them and, where the request
  gave no \<^verbatim>\<open>asOf\<close>, the snapshot's clock reading: stored records, the assets and
  prices of placeholders, the positions and a given \<^verbatim>\<open>asOf\<close> are the same. A price
  answer without placeholder is the same in both.
\<close>

theorem answers_agree_up_to_fresh_values:
  "without_ids (fst (queryPrices h P assetIds asOf_q from_q to_q g))
     = without_ids (fst (queryPrices h P assetIds asOf_q from_q to_q g')) \<and>
   (\<forall>es. fst (queryPrices h P assetIds asOf_q from_q to_q g) = Inr es \<and> \<not> list_ex is_placeholder es
      \<longrightarrow> fst (queryPrices h P assetIds asOf_q from_q to_q g') = Inr es) \<and>
   without_fresh asOf_q (fst (queryPortfolio h positions asOf_q now g))
     = without_fresh asOf_q (fst (queryPortfolio h positions asOf_q now' g'))"
proof -
  let ?r = "fst (queryPrices h P assetIds asOf_q from_q to_q g)"
  let ?r' = "fst (queryPrices h P assetIds asOf_q from_q to_q g')"
  have prices: "without_ids ?r = without_ids ?r'"
    by (simp add: queryPrices_def Let_def respond_without_ids [of asOf_q _ _ g g'])
  have same: "?r' = Inr es" if "?r = Inr es" and "\<not> list_ex is_placeholder es" for es
  proof -
    from prices that(1) obtain es' where r': "?r' = Inr es'" and "map without_id es = map without_id es'"
      by (cases ?r') (auto simp: without_ids_def)
    with that(2) show ?thesis using without_id_no_placeholder [of es es'] by simp
  qed
  have portfolio: "without_fresh asOf_q (fst (queryPortfolio h positions asOf_q now g))
     = without_fresh asOf_q (fst (queryPortfolio h positions asOf_q now' g'))"
    by (simp add: queryPortfolio_def snapshot_def without_fresh_def split_beta)
  from prices same portfolio show ?thesis by blast
qed

theorem answers_agree_up_to_fresh_values_witness:
  "without_ids (fst (queryPrices demo_host demo_prices (Some ''Doge,Bitcoin'') (Some ''2023-01-08'') None None demo_uuids))
     = Inr [Placeholder [] ''Doge'' 0, Stored btc3] \<and>
   without_ids (fst (queryPrices demo_host demo_prices (Some ''Doge,Bitcoin'') (Some ''2023-01-08'') None None
       (\<lambda>n. demo_uuids (Suc n))))
     = Inr [Placeholder [] ''Doge'' 0, Stored btc3] \<and>
   without_fresh None (fst (queryPortfolio demo_host demo_positions None ''2024-06-16T09:00:01.000Z''
       (\<lambda>n. demo_uuids (Suc n))))
     = Inr \<lparr> pf_id = [], pf_asOf = [], pf_positions = [pos1, pos2, pos3] \<rparr>"
proof -
  have a: "fst (queryPrices demo_host demo_prices (Some ''Doge,Bitcoin'') (Some ''2023-01-08'') None None demo_uuids)
      = Inr [Placeholder ''u'' ''Doge'' 0, Stored btc3]"
    by (simp add: defs demo demo_uuids_def)
  have b: "fst (queryPortfolio demo_host demo_positions None ''2024-06-16T09:00:00.000Z'' demo_uuids)
      = Inr \<lparr> pf_id = ''u'', pf_asOf = ''2024-06-16T09:00:00.000Z'', pf_positions = [pos1, pos2, pos3] \<rparr>"
    by (simp add: defs demo_uuids_def demo_positions_def)
  from answers_agree_up_to_fresh_values [where h = demo_host and P = demo_prices
      and assetIds = "Some ''Doge,Bitcoin''" and asOf_q = "Some ''2023-01-08''" and from_q = None
      and to_q = None and g = demo_uuids and g' = "\<lambda>n. demo_uuids (Suc n)"]
    answers_agree_up_to_fresh_values [where h = demo_host and asOf_q = None
      and positions = demo_positions and now = "''2024-06-16T09:00:00.000Z''"
      and now' = "''2024-06-16T09:00:01.000Z''" and g = demo_uuids
      and g' = "\<lambda>n. demo_uuids (Suc n)"]
  show ?thesis by (simp add: a b) (simp add: without_ids_def without_fresh_def truthy_def)
qed

text \<open>
  C3 as stated fails: the second of two successive calls draws the next identifier, so that
  the two snapshots differ in \<^verbatim>\<open>id\<close>, and so do the two placeholders of a price
  query for an asset without record.
\<close>

theorem repeated_call_counterexample:
  "fst (queryPortfolio demo_host demo_positions None ''2024-06-16T09:00:00.000Z''
          (snd (queryPortfolio demo_host demo_positions None ''2024-06-16T09:00:00.000Z'' demo_uuids)))
     \<noteq> fst (queryPortfolio demo_host demo_positions None ''2024-06-16T09:00:00.000Z'' demo_uuids) \<and>
   fst (queryPrices demo_host demo_prices (Some ''Doge'') (Some ''2023-01-08'') None None
          (snd (queryPrices demo_host demo_prices (Some ''Doge'') (Some ''2023-01-08'') None None demo_uuids)))
     \<noteq> fst (queryPrices demo_host demo_prices (Some ''Doge'') (Some ''2023-01-08'') None None demo_uuids)"
  by (simp add: defs demo demo_uuids_def)

end
